theory Spec2Isabelle
  imports Complex_Main
begin

section \<open>Python values and exceptions\<close>

text \<open>
  The record pipeline of the news-feed exercises (Task 6: delimited text files, Task 8: JSON,
  Task 9: XML, Task 10: SQLite). Strings are lists of characters, a character being a
  code point below 256; the character classes below are Python's \<^verbatim>\<open>str\<close> predicates
  on these code points.
\<close>

datatype py_error =
    IndexError | ValueError | TypeError | AttributeError
  | JSONDecodeError | ParseError | OperationalError

text \<open>The values \<^verbatim>\<open>json.load\<close> returns; \<^verbatim>\<open>PNone\<close> is also what \<^verbatim>\<open>dict.get\<close>
  gives for a missing key. \<^verbatim>\<open>PInt\<close> stands for every JSON number.\<close>

datatype pyval =
    PNone | PBool bool | PInt int | PStr string
  | PList "pyval list" | PDict "(string \<times> pyval) list"

section \<open>String primitives\<close>

definition isspace :: "char \<Rightarrow> bool" where
  "isspace c = (c \<in> set [CHR 0x09, CHR 0x0A, CHR 0x0B, CHR 0x0C, CHR 0x0D,
                          CHR 0x1C, CHR 0x1D, CHR 0x1E, CHR 0x1F, CHR 0x20,
                          CHR 0x85, CHR 0xA0])"

text \<open>The upper-case letters and, position by position, their lower-case forms: the
  ASCII letters, then U+00C0 to U+00DE without the multiplication sign.\<close>

definition uppers :: string where
  "uppers = ''ABCDEFGHIJKLMNOPQRSTUVWXYZ'' @
    [CHR 0xC0, CHR 0xC1, CHR 0xC2, CHR 0xC3, CHR 0xC4, CHR 0xC5, CHR 0xC6, CHR 0xC7,
     CHR 0xC8, CHR 0xC9, CHR 0xCA, CHR 0xCB, CHR 0xCC, CHR 0xCD, CHR 0xCE, CHR 0xCF,
     CHR 0xD0, CHR 0xD1, CHR 0xD2, CHR 0xD3, CHR 0xD4, CHR 0xD5, CHR 0xD6, CHR 0xD8,
     CHR 0xD9, CHR 0xDA, CHR 0xDB, CHR 0xDC, CHR 0xDD, CHR 0xDE]"

definition lowers :: string where
  "lowers = ''abcdefghijklmnopqrstuvwxyz'' @
    [CHR 0xE0, CHR 0xE1, CHR 0xE2, CHR 0xE3, CHR 0xE4, CHR 0xE5, CHR 0xE6, CHR 0xE7,
     CHR 0xE8, CHR 0xE9, CHR 0xEA, CHR 0xEB, CHR 0xEC, CHR 0xED, CHR 0xEE, CHR 0xEF,
     CHR 0xF0, CHR 0xF1, CHR 0xF2, CHR 0xF3, CHR 0xF4, CHR 0xF5, CHR 0xF6, CHR 0xF8,
     CHR 0xF9, CHR 0xFA, CHR 0xFB, CHR 0xFC, CHR 0xFD, CHR 0xFE]"

text \<open>The letters without a counterpart in the two lists: the ordinal indicators, the
  micro sign, sharp s and y with diaeresis.\<close>

definition other_letters :: string where
  "other_letters = [CHR 0xAA, CHR 0xB5, CHR 0xBA, CHR 0xDF, CHR 0xFF]"

definition isupper :: "char \<Rightarrow> bool" where
  "isupper c = (c \<in> set uppers)"

definition isalpha :: "char \<Rightarrow> bool" where
  "isalpha c = (c \<in> set uppers \<or> c \<in> set lowers \<or> c \<in> set other_letters)"

definition isdigit :: "char \<Rightarrow> bool" where
  "isdigit c = (c \<in> set ''0123456789'')"

text \<open>The class \<^verbatim>\<open>\w\<close> of the regular expressions: letters, the underscore, and the
  characters Python counts as decimal, digit or numeric (superscript digits and vulgar
  fractions among them).\<close>

definition isword :: "char \<Rightarrow> bool" where
  "isword c = (isalpha c \<or> isdigit c \<or> c = CHR ''_''
               \<or> c \<in> set [CHR 0xB2, CHR 0xB3, CHR 0xB9, CHR 0xBC, CHR 0xBD, CHR 0xBE])"

definition lower_char :: "char \<Rightarrow> char" where
  "lower_char c = (case map_of (zip uppers lowers) c of Some d \<Rightarrow> d | None \<Rightarrow> c)"

text \<open>The upper-case forms of the micro sign, sharp s and y with diaeresis are not code
  points below 256; \<^verbatim>\<open>upper_char\<close> leaves these three as they are.\<close>

definition upper_char :: "char \<Rightarrow> char" where
  "upper_char c = (case map_of (zip lowers uppers) c of Some d \<Rightarrow> d | None \<Rightarrow> c)"

definition lower :: "string \<Rightarrow> string" where
  "lower s = map lower_char s"

text \<open>\<^verbatim>\<open>str.strip()\<close>, \<^verbatim>\<open>str.rstrip(chars)\<close>, \<^verbatim>\<open>str.capitalize()\<close>, \<^verbatim>\<open>sep.join(xs)\<close>.\<close>

definition strip :: "string \<Rightarrow> string" where
  "strip s = rev (dropWhile isspace (rev (dropWhile isspace s)))"

definition rstrip_chars :: "string \<Rightarrow> string \<Rightarrow> string" where
  "rstrip_chars cs s = rev (dropWhile (\<lambda>c. c \<in> set cs) (rev s))"

fun capitalize :: "string \<Rightarrow> string" where
  "capitalize [] = []"
| "capitalize (c # cs) = upper_char c # map lower_char cs"

fun join :: "string \<Rightarrow> string list \<Rightarrow> string" where
  "join sep [] = []"
| "join sep [x] = x"
| "join sep (x # y # ys) = x @ sep @ join sep (y # ys)"

text \<open>\<^verbatim>\<open>str.split()\<close>: the maximal runs of non-whitespace; the first argument is the
  current run, reversed.\<close>

fun split_ws_aux :: "string \<Rightarrow> string \<Rightarrow> string list" where
  "split_ws_aux cur [] = (if cur = [] then [] else [rev cur])"
| "split_ws_aux cur (c # cs) =
     (if isspace c
      then (if cur = [] then split_ws_aux [] cs else rev cur # split_ws_aux [] cs)
      else split_ws_aux (c # cur) cs)"

definition split_ws :: "string \<Rightarrow> string list" where
  "split_ws s = split_ws_aux [] s"

text \<open>\<^verbatim>\<open>str.split(d)\<close> with a one-character separator: always at least one part.\<close>

fun split_on_aux :: "char \<Rightarrow> string \<Rightarrow> string \<Rightarrow> string list" where
  "split_on_aux d cur [] = [rev cur]"
| "split_on_aux d cur (c # cs) =
     (if c = d then rev cur # split_on_aux d [] cs else split_on_aux d (c # cur) cs)"

definition split_on :: "char \<Rightarrow> string \<Rightarrow> string list" where
  "split_on d s = split_on_aux d [] s"

section \<open>normalize\_text (Tasks 6, 8, 9, 10)\<close>

text \<open>
  \<^verbatim>\<open>re.split(r'(?<=[.!?])\s+', s)\<close>: the string is cut at every maximal run of
  whitespace whose left neighbour is one of \<^verbatim>\<open>.!?\<close>. The first argument is the current
  piece, reversed; \<^verbatim>\<open>skip\<close> is set while the rest of a separating run is consumed.
\<close>

fun re_split_aux :: "bool \<Rightarrow> string \<Rightarrow> string \<Rightarrow> string list" where
  "re_split_aux skip cur [] = [rev cur]"
| "re_split_aux skip cur (c # cs) =
     (if isspace c \<and> skip then re_split_aux True cur cs
      else if isspace c \<and> cur \<noteq> [] \<and> hd cur \<in> set ''.!?''
      then rev cur # re_split_aux True [] cs
      else re_split_aux False (c # cur) cs)"

definition re_split_sentences :: "string \<Rightarrow> string list" where
  "re_split_sentences s = re_split_aux False [] s"

text \<open>
  \<^verbatim>\<open>re.sub(r'\b[iI]z\b', 'is', s)\<close>: scanning from the left, \<^verbatim>\<open>iz\<close> or \<^verbatim>\<open>Iz\<close> with no
  word character on either side becomes \<^verbatim>\<open>is\<close>. The first argument is the character
  before the current position.
\<close>

fun re_sub_iz_aux :: "char option \<Rightarrow> string \<Rightarrow> string" where
  "re_sub_iz_aux p (a # b # rest) =
     (if (a = CHR ''i'' \<or> a = CHR ''I'') \<and> b = CHR ''z''
         \<and> (case p of None \<Rightarrow> True | Some q \<Rightarrow> \<not> isword q)
         \<and> (case rest of [] \<Rightarrow> True | r # _ \<Rightarrow> \<not> isword r)
      then ''is'' @ re_sub_iz_aux (Some b) rest
      else a # re_sub_iz_aux (Some a) (b # rest))"
| "re_sub_iz_aux p s = s"

definition re_sub_iz :: "string \<Rightarrow> string" where
  "re_sub_iz s = re_sub_iz_aux None s"

text \<open>\<^verbatim>\<open>[s.rstrip('.!?').split()[-1] for s in corrected_sentences]\<close>: the index
  \<^verbatim>\<open>[-1]\<close> raises on an empty list.\<close>

fun last_words :: "string list \<Rightarrow> py_error + string list" where
  "last_words [] = Inr []"
| "last_words (s # ss) =
     (case split_ws (rstrip_chars ''.!?'' s) of
        [] \<Rightarrow> Inl IndexError
      | w # ws \<Rightarrow> (case last_words ss of
                     Inl e \<Rightarrow> Inl e
                   | Inr r \<Rightarrow> Inr (last (w # ws) # r)))"

definition normalize_text :: "string \<Rightarrow> py_error + (string \<times> nat)" where
  "normalize_text text =
     (let sentences = re_split_sentences (strip text);
          normalized_sentences = map capitalize sentences;
          corrected_sentences = map re_sub_iz normalized_sentences
      in case last_words corrected_sentences of
           Inl e \<Rightarrow> Inl e
         | Inr lw \<Rightarrow>
             (let new_sentence = capitalize (join '' '' lw) @ ''.''
              in Inr (join '' '' (corrected_sentences @ [new_sentence]),
                      length (filter isspace text))))"

section \<open>Dates and the clock\<close>

text \<open>
  A \<^verbatim>\<open>datetime\<close> is the number of microseconds since 0001-01-01 00:00:00; the proleptic
  Gregorian ordinal of a date is computed as the \<^verbatim>\<open>datetime\<close> module does.
\<close>

datatype date = Date (year: nat) (month: nat) (day: nat)

definition is_leap :: "nat \<Rightarrow> bool" where
  "is_leap y = (y mod 4 = 0 \<and> (y mod 100 \<noteq> 0 \<or> y mod 400 = 0))"

definition days_in_month :: "nat \<Rightarrow> nat \<Rightarrow> nat" where
  "days_in_month y m =
     (if m = 2 then (if is_leap y then 29 else 28)
      else if m = 4 \<or> m = 6 \<or> m = 9 \<or> m = 11 then 30 else 31)"

definition days_before_year :: "nat \<Rightarrow> int" where
  "days_before_year y =
     (let z = int y - 1 in z * 365 + z div 4 - z div 100 + z div 400)"

definition days_before_month :: "nat \<Rightarrow> nat \<Rightarrow> int" where
  "days_before_month y m = int (sum_list (map (days_in_month y) [1..<m]))"

definition toordinal :: "date \<Rightarrow> int" where
  "toordinal d = days_before_year (year d) + days_before_month (year d) (month d) + int (day d)"

definition us_per_day :: int where
  "us_per_day = 86400000000"

definition midnight :: "date \<Rightarrow> int" where
  "midnight d = (toordinal d - 1) * us_per_day"

text \<open>\<^verbatim>\<open>(a - b).days\<close>: a \<^verbatim>\<open>timedelta\<close> is normalised with a non-negative number of
  seconds and microseconds, so its \<^verbatim>\<open>days\<close> is the floor of the quotient.\<close>

definition timedelta_days :: "int \<Rightarrow> int \<Rightarrow> int" where
  "timedelta_days a b = (a - b) div us_per_day"

definition digit_val :: "char \<Rightarrow> nat" where
  "digit_val c =
     (case map_of (zip ''0123456789'' [0, 1, 2, 3, 4, 5, 6, 7, 8, 9]) c of
        Some n \<Rightarrow> n | None \<Rightarrow> 0)"

text \<open>
  \<^verbatim>\<open>strptime(s, '%Y-%m-%d')\<close> matches the regular expression
  \<^verbatim>\<open>(\d\d\d\d)-(1[0-2]|0[1-9]|[1-9])-(3[0-1]|[1-2]\d|0[1-9]|[1-9]| [1-9])\<close> at the start of
  the string. The two functions below list, in the order of the alternatives, the ways the
  month and the day group match, each with the rest of the string.
\<close>

definition match_month :: "string \<Rightarrow> (nat \<times> string) list" where
  "match_month s =
     (case s of
        a # b # r \<Rightarrow>
          (if a = CHR ''1'' \<and> b \<in> set ''012'' then [(10 + digit_val b, r)] else []) @
          (if a = CHR ''0'' \<and> b \<in> set ''123456789'' then [(digit_val b, r)] else [])
      | _ \<Rightarrow> []) @
     (case s of
        a # r \<Rightarrow> (if a \<in> set ''123456789'' then [(digit_val a, r)] else [])
      | [] \<Rightarrow> [])"

definition match_day :: "string \<Rightarrow> (nat \<times> string) list" where
  "match_day s =
     (case s of
        a # b # r \<Rightarrow>
          (if a = CHR ''3'' \<and> b \<in> set ''01'' then [(30 + digit_val b, r)] else []) @
          (if a \<in> set ''12'' \<and> isdigit b then [(10 * digit_val a + digit_val b, r)] else []) @
          (if a = CHR ''0'' \<and> b \<in> set ''123456789'' then [(digit_val b, r)] else [])
      | _ \<Rightarrow> []) @
     (case s of
        a # r \<Rightarrow> (if a \<in> set ''123456789'' then [(digit_val a, r)] else [])
      | [] \<Rightarrow> []) @
     (case s of
        a # b # r \<Rightarrow> (if a = CHR '' '' \<and> b \<in> set ''123456789'' then [(digit_val b, r)] else [])
      | _ \<Rightarrow> [])"

text \<open>The first match in backtracking order: year, month, day and the unconverted rest.\<close>

definition strptime_match :: "string \<Rightarrow> (nat \<times> nat \<times> nat \<times> string) option" where
  "strptime_match s =
     (case s of
        y1 # y2 # y3 # y4 # dash # rest \<Rightarrow>
          (if isdigit y1 \<and> isdigit y2 \<and> isdigit y3 \<and> isdigit y4 \<and> dash = CHR ''-''
           then (case concat (map (\<lambda>(m, r1).
                         (case r1 of
                            c # r2 \<Rightarrow> (if c = CHR ''-''
                                        then map (\<lambda>(d, r3). (m, d, r3)) (match_day r2) else [])
                          | [] \<Rightarrow> [])) (match_month rest)) of
                   [] \<Rightarrow> None
                 | (m, d, r3) # _ \<Rightarrow>
                     Some (1000 * digit_val y1 + 100 * digit_val y2 + 10 * digit_val y3
                             + digit_val y4, m, d, r3))
           else None)
      | _ \<Rightarrow> None)"

text \<open>\<^verbatim>\<open>datetime.datetime.strptime(v, '%Y-%m-%d')\<close>: \<^verbatim>\<open>TypeError\<close> when the argument is
  not a string, \<^verbatim>\<open>ValueError\<close> when the string does not match, when data remains after the
  match, or when the year is 0 or the day exceeds the month's length.\<close>

definition strptime :: "pyval \<Rightarrow> py_error + date" where
  "strptime v =
     (case v of
        PStr s \<Rightarrow>
          (case strptime_match s of
             None \<Rightarrow> Inl ValueError
           | Some (y, m, d, r) \<Rightarrow>
               (if r \<noteq> [] then Inl ValueError
                else if y < 1 \<or> days_in_month y m < d then Inl ValueError
                else Inr (Date y m d)))
      | _ \<Rightarrow> Inl TypeError)"

section \<open>The record model\<close>

text \<open>\<^verbatim>\<open>publish_date\<close> is the creation instant formatted to whole seconds; it is kept
  as the number of seconds.\<close>

datatype feed_record =
    News (text_of: pyval) (city: pyval) (publish_date: int)
  | PrivateAd (text_of: pyval) (expiration_date: date) (days_left: int) (publish_date: int)
  | Event (text_of: pyval) (location: pyval) (event_date: date) (days_until_event: int)
      (publish_date: int)

datatype message =
    FileDoesNotExist | UnknownRecordType pyval | InvalidRecordFormat string
  | ProcessedAndRemoved

text \<open>
  The value of \<^verbatim>\<open>(uppercase_count / total_letters) * 100 if total_letters else 0\<close>: the
  integer 0, or the double the expression evaluates to, kept as the two integers
  \<^verbatim>\<open>uppercase_count\<close> and \<^verbatim>\<open>total_letters\<close> that determine it.
\<close>

datatype percentage = IntZero | FloatPercent nat nat

text \<open>A file whose content the adapter's parser rejects, or the parsed content.\<close>

datatype 'a doc = Malformed | Doc 'a

text \<open>
  The world a feed manager acts on: the source file (\<^verbatim>\<open>None\<close> when it does not exist),
  the lines of the feed file as the records they were formatted from, the two analytics
  files (\<^verbatim>\<open>None\<close> until first written), the printed messages, and the wall clock as the
  sequence of values successive calls of \<^verbatim>\<open>datetime.now()\<close> return. The four paths are
  taken to be different files.
\<close>

record 's world =
  source :: "'s option"
  feed :: "feed_record list"
  word_count_file :: "(string \<times> nat) list option"
  letter_count_file :: "(string \<times> nat \<times> nat \<times> percentage) option"
  printed :: "message list"
  clock :: "nat \<Rightarrow> int"
  ticks :: nat

text \<open>The outcome of a call: it returns, or an exception escapes; either way with the
  world as the call left it.\<close>

datatype 'w result = Ok 'w | Raise py_error 'w

definition now :: "'s world \<Rightarrow> int \<times> 's world" where
  "now w = (clock w (ticks w), w\<lparr>ticks := Suc (ticks w)\<rparr>)"

definition Record_init :: "'s world \<Rightarrow> int \<times> 's world" where
  "Record_init w = (let (t, w1) = now w in (t div 1000000, w1))"

definition News_init :: "pyval \<Rightarrow> pyval \<Rightarrow> 's world \<Rightarrow> feed_record \<times> 's world" where
  "News_init txt cty w = (let (pub, w1) = Record_init w in (News txt cty pub, w1))"

definition PrivateAd_init ::
  "pyval \<Rightarrow> pyval \<Rightarrow> 's world \<Rightarrow> (py_error + feed_record) \<times> 's world" where
  "PrivateAd_init txt exp_date w =
     (let (pub, w1) = Record_init w in
      case strptime exp_date of
        Inl e \<Rightarrow> (Inl e, w1)
      | Inr d \<Rightarrow>
          (let (t, w2) = now w1
           in (Inr (PrivateAd txt d (timedelta_days (midnight d) t) pub), w2)))"

definition Event_init ::
  "pyval \<Rightarrow> pyval \<Rightarrow> pyval \<Rightarrow> 's world \<Rightarrow> (py_error + feed_record) \<times> 's world" where
  "Event_init txt loc ev_date w =
     (let (pub, w1) = Record_init w in
      case strptime ev_date of
        Inl e \<Rightarrow> (Inl e, w1)
      | Inr d \<Rightarrow>
          (let (t, w2) = now w1
           in (Inr (Event txt loc d (timedelta_days (midnight d) t) pub), w2)))"

text \<open>\<^verbatim>\<open>save_to_file\<close> appends one line to the feed file.\<close>

definition save_to_file :: "feed_record \<Rightarrow> 's world \<Rightarrow> 's world" where
  "save_to_file r w = w\<lparr>feed := feed w @ [r]\<rparr>"

section \<open>Analytics (Tasks 8 and 9)\<close>

text \<open>\<^verbatim>\<open>word_count[word] = word_count.get(word, 0) + 1\<close> on a dictionary in insertion
  order.\<close>

fun bump :: "(string \<times> nat) list \<Rightarrow> string \<Rightarrow> (string \<times> nat) list" where
  "bump [] w = [(w, 1)]"
| "bump ((k, n) # kvs) w = (if k = w then (k, n + 1) # kvs else (k, n) # bump kvs w)"

definition update_word_count :: "string \<Rightarrow> 's world \<Rightarrow> 's world" where
  "update_word_count txt w =
     (let words = split_ws (lower txt);
          word_count = foldl bump [] words
      in w\<lparr>word_count_file := Some word_count\<rparr>)"

definition update_letter_count :: "string \<Rightarrow> 's world \<Rightarrow> 's world" where
  "update_letter_count txt w =
     (let letters = filter isalpha txt;
          total_letters = length letters;
          uppercase_count = length (filter isupper letters);
          uppercase_percentage =
            (if total_letters \<noteq> 0
             then FloatPercent uppercase_count total_letters else IntZero)
      in w\<lparr>letter_count_file :=
             Some (txt, total_letters, uppercase_count, uppercase_percentage)\<rparr>)"

text \<open>
  \<^verbatim>\<open>self.update_word_count(record.text); self.update_letter_count(record.text)\<close>: on a
  text that is not a string \<^verbatim>\<open>text.lower()\<close> raises before anything is written.
\<close>

definition update_counts :: "pyval \<Rightarrow> 's world \<Rightarrow> 's world result" where
  "update_counts txt w =
     (case txt of
        PStr s \<Rightarrow> Ok (update_letter_count s (update_word_count s w))
      | _ \<Rightarrow> Raise AttributeError w)"

text \<open>A \<^verbatim>\<open>for\<close> loop whose body may raise.\<close>

fun for_each :: "('a \<Rightarrow> 'w \<Rightarrow> 'w result) \<Rightarrow> 'a list \<Rightarrow> 'w \<Rightarrow> 'w result" where
  "for_each body [] w = Ok w"
| "for_each body (x # xs) w =
     (case body x w of
        Raise e w1 \<Rightarrow> Raise e w1
      | Ok w1 \<Rightarrow> for_each body xs w1)"

definition print :: "message \<Rightarrow> 's world \<Rightarrow> 's world" where
  "print m w = w\<lparr>printed := printed w @ [m]\<rparr>"

text \<open>\<^verbatim>\<open>os.remove(path); print(... processed and removed)\<close>.\<close>

definition remove_source :: "'s world \<Rightarrow> 's world" where
  "remove_source w = print ProcessedAndRemoved (w\<lparr>source := None\<rparr>)"

text \<open>Saving a record and updating both analytics files, as the JSON and XML loops do.\<close>

definition publish :: "feed_record \<Rightarrow> 's world \<Rightarrow> 's world result" where
  "publish r w = update_counts (text_of r) (save_to_file r w)"

section \<open>The JSON adapter (Task 8, and unchanged in Task 9)\<close>

text \<open>\<^verbatim>\<open>record_data.get(key)\<close> on a dictionary.\<close>

definition dict_get :: "(string \<times> pyval) list \<Rightarrow> string \<Rightarrow> pyval" where
  "dict_get d k = (case map_of d k of Some v \<Rightarrow> v | None \<Rightarrow> PNone)"

text \<open>What \<^verbatim>\<open>for record_data in records_data\<close> iterates over: the elements of a list,
  the keys of a dictionary, the characters of a string; other values are not iterable.\<close>

definition iter_items :: "pyval \<Rightarrow> py_error + pyval list" where
  "iter_items v =
     (case v of
        PList xs \<Rightarrow> Inr xs
      | PDict kvs \<Rightarrow> Inr (map (\<lambda>kv. PStr (fst kv)) kvs)
      | PStr s \<Rightarrow> Inr (map (\<lambda>c. PStr [c]) s)
      | _ \<Rightarrow> Inl TypeError)"

text \<open>The body of the loop of \<^verbatim>\<open>load_from_json\<close>; \<^verbatim>\<open>.get\<close> exists on dictionaries
  only.\<close>

definition json_body :: "pyval \<Rightarrow> 's world \<Rightarrow> 's world result" where
  "json_body record_data w =
     (case record_data of
        PDict d \<Rightarrow>
          (let record_type = dict_get d ''type'';
               txt = dict_get d ''text''
           in if record_type = PStr ''news''
              then (let (r, w1) = News_init txt (dict_get d ''city'') w in publish r w1)
              else if record_type = PStr ''private_ad''
              then (case PrivateAd_init txt (dict_get d ''expiration_date'') w of
                      (Inl e, w1) \<Rightarrow> Raise e w1
                    | (Inr r, w1) \<Rightarrow> publish r w1)
              else if record_type = PStr ''event''
              then (case Event_init txt (dict_get d ''location'') (dict_get d ''event_date'') w of
                      (Inl e, w1) \<Rightarrow> Raise e w1
                    | (Inr r, w1) \<Rightarrow> publish r w1)
              else Ok (print (UnknownRecordType record_type) w))
      | _ \<Rightarrow> Raise AttributeError w)"

definition load_from_json :: "pyval doc world \<Rightarrow> pyval doc world result" where
  "load_from_json w =
     (case source w of
        None \<Rightarrow> Ok (print FileDoesNotExist w)
      | Some Malformed \<Rightarrow> Raise JSONDecodeError w
      | Some (Doc records_data) \<Rightarrow>
          (case iter_items records_data of
             Inl e \<Rightarrow> Raise e w
           | Inr items \<Rightarrow>
               (case for_each json_body items w of
                  Raise e w1 \<Rightarrow> Raise e w1
                | Ok w1 \<Rightarrow> Ok (remove_source w1))))"

section \<open>The XML adapter (Task 9)\<close>

text \<open>An element: tag, attributes, the text before its first child (\<^verbatim>\<open>None\<close> when
  there is none), children.\<close>

datatype xml =
  Element (tag: string) (attrib: "(string \<times> string) list") (etext: "string option")
    (children: "xml list")

definition findall :: "xml \<Rightarrow> string \<Rightarrow> xml list" where
  "findall e t = filter (\<lambda>c. tag c = t) (children e)"

definition find_child :: "xml \<Rightarrow> string \<Rightarrow> xml option" where
  "find_child e t = (case findall e t of [] \<Rightarrow> None | c # _ \<Rightarrow> Some c)"

text \<open>\<^verbatim>\<open>record.find(t).text.strip()\<close>: \<^verbatim>\<open>find\<close> gives \<^verbatim>\<open>None\<close> when there is no such
  child, and \<^verbatim>\<open>.text\<close> is \<^verbatim>\<open>None\<close> on an element without text.\<close>

definition find_text_strip :: "xml \<Rightarrow> string \<Rightarrow> py_error + string" where
  "find_text_strip e t =
     (case find_child e t of
        None \<Rightarrow> Inl AttributeError
      | Some c \<Rightarrow> (case etext c of None \<Rightarrow> Inl AttributeError | Some s \<Rightarrow> Inr (strip s)))"

definition attr_val :: "string option \<Rightarrow> pyval" where
  "attr_val a = (case a of None \<Rightarrow> PNone | Some s \<Rightarrow> PStr s)"

definition xml_body :: "xml \<Rightarrow> 's world \<Rightarrow> 's world result" where
  "xml_body rec w =
     (let record_type = map_of (attrib rec) ''type'' in
      case find_text_strip rec ''text'' of
        Inl e \<Rightarrow> Raise e w
      | Inr txt \<Rightarrow>
          (if record_type = Some ''news''
           then (case find_text_strip rec ''city'' of
                   Inl e \<Rightarrow> Raise e w
                 | Inr cty \<Rightarrow> (let (obj, w1) = News_init (PStr txt) (PStr cty) w in publish obj w1))
           else if record_type = Some ''private_ad''
           then (case find_text_strip rec ''expiration_date'' of
                   Inl e \<Rightarrow> Raise e w
                 | Inr exp_date \<Rightarrow>
                     (case PrivateAd_init (PStr txt) (PStr exp_date) w of
                        (Inl e, w1) \<Rightarrow> Raise e w1
                      | (Inr obj, w1) \<Rightarrow> publish obj w1))
           else if record_type = Some ''event''
           then (case find_text_strip rec ''location'' of
                   Inl e \<Rightarrow> Raise e w
                 | Inr loc \<Rightarrow>
                     (case find_text_strip rec ''event_date'' of
                        Inl e \<Rightarrow> Raise e w
                      | Inr ev_date \<Rightarrow>
                          (case Event_init (PStr txt) (PStr loc) (PStr ev_date) w of
                             (Inl e, w1) \<Rightarrow> Raise e w1
                           | (Inr obj, w1) \<Rightarrow> publish obj w1)))
           else Ok (print (UnknownRecordType (attr_val record_type)) w)))"

definition load_from_xml :: "xml doc world \<Rightarrow> xml doc world result" where
  "load_from_xml w =
     (case source w of
        None \<Rightarrow> Ok (print FileDoesNotExist w)
      | Some Malformed \<Rightarrow> Raise ParseError w
      | Some (Doc root_elem) \<Rightarrow>
          (case for_each xml_body (findall root_elem ''record'') w of
             Raise e w1 \<Rightarrow> Raise e w1
           | Ok w1 \<Rightarrow> Ok (remove_source w1)))"

section \<open>The delimited-line adapter (Task 6)\<close>

text \<open>
  The body of the loop of \<^verbatim>\<open>process_file\<close>. \<^verbatim>\<open>parts[1]\<close> is read, and the text
  normalised, before the number of parts is looked at.
\<close>

definition line_body :: "string \<Rightarrow> 's world \<Rightarrow> 's world result" where
  "line_body line w =
     (let parts = split_on (CHR ''|'') (strip line) in
      case parts of
        p0 # p1 # _ \<Rightarrow>
          (let record_type = strip p0; txt = strip p1 in
           case normalize_text txt of
             Inl e \<Rightarrow> Raise e w
           | Inr (normalized_text, _) \<Rightarrow>
               (if record_type = ''News'' \<and> length parts = 3
                then (let (r, w1) = News_init (PStr normalized_text) (PStr (strip (parts ! 2))) w
                      in Ok (save_to_file r w1))
                else if record_type = ''PrivateAd'' \<and> length parts = 3
                then (case PrivateAd_init (PStr normalized_text) (PStr (strip (parts ! 2))) w of
                        (Inl e, w1) \<Rightarrow> Raise e w1
                      | (Inr r, w1) \<Rightarrow> Ok (save_to_file r w1))
                else if record_type = ''Event'' \<and> length parts = 4
                then (case Event_init (PStr normalized_text) (PStr (strip (parts ! 2)))
                             (PStr (strip (parts ! 3))) w of
                        (Inl e, w1) \<Rightarrow> Raise e w1
                      | (Inr r, w1) \<Rightarrow> Ok (save_to_file r w1))
                else Ok (print (InvalidRecordFormat line) w)))
      | _ \<Rightarrow> Raise IndexError w)"

definition process_file :: "string list world \<Rightarrow> string list world result" where
  "process_file w =
     (case source w of
        None \<Rightarrow> Ok (print FileDoesNotExist w)
      | Some lines \<Rightarrow>
          (case for_each line_body lines w of
             Raise e w1 \<Rightarrow> Raise e w1
           | Ok w1 \<Rightarrow> Ok (remove_source w1)))"

section \<open>The table sink (Task 10)\<close>

text \<open>
  The SQLite database as the program uses it: every table has the
  \<^verbatim>\<open>id INTEGER PRIMARY KEY AUTOINCREMENT\<close> column, so a table is its other columns, its
  rows (identifier and the other values) and the largest identifier handed out so far.
  At every call the program makes, the values have the declared types of their columns, so
  they are stored as given.
\<close>

datatype sqlval = SqlNull | SqlInt int | SqlText string

datatype coltype = TEXT | TEXT_UNIQUE | INTEGER

record table =
  columns :: "(string \<times> coltype) list"
  rows :: "(int \<times> sqlval list) list"
  seq :: int

type_synonym db = "string \<Rightarrow> table option"

definition create_table_if_not_exists ::
  "string \<Rightarrow> (string \<times> coltype) list \<Rightarrow> db \<Rightarrow> db" where
  "create_table_if_not_exists name cols d =
     (case d name of
        Some _ \<Rightarrow> d
      | None \<Rightarrow> d(name \<mapsto> \<lparr>columns = cols, rows = [], seq = 0\<rparr>))"

definition news_columns :: "(string \<times> coltype) list" where
  "news_columns = [(''text'', TEXT_UNIQUE), (''city'', TEXT), (''publish_date'', TEXT)]"

definition private_ad_columns :: "(string \<times> coltype) list" where
  "private_ad_columns =
     [(''text'', TEXT_UNIQUE), (''expiration_date'', TEXT), (''days_left'', INTEGER),
      (''publish_date'', TEXT)]"

definition event_columns :: "(string \<times> coltype) list" where
  "event_columns =
     [(''text'', TEXT_UNIQUE), (''location'', TEXT), (''event_date'', TEXT),
      (''days_until_event'', INTEGER), (''publish_date'', TEXT)]"

definition create_tables :: "db \<Rightarrow> db" where
  "create_tables d =
     create_table_if_not_exists ''Event'' event_columns
       (create_table_if_not_exists ''PrivateAd'' private_ad_columns
          (create_table_if_not_exists ''News'' news_columns d))"

text \<open>\<^verbatim>\<open>DatabaseManager(db_name)\<close>: connect and create the tables.\<close>

definition DatabaseManager_init :: "db \<Rightarrow> db" where
  "DatabaseManager_init d = create_tables d"

text \<open>A new row violates a uniqueness constraint when some row holds the same non-null
  value in a \<^verbatim>\<open>UNIQUE\<close> column.\<close>

definition conflicts :: "table \<Rightarrow> sqlval list \<Rightarrow> bool" where
  "conflicts t vals =
     list_ex (\<lambda>i. snd (columns t ! i) = TEXT_UNIQUE \<and> vals ! i \<noteq> SqlNull \<and>
                  list_ex (\<lambda>r. snd r ! i = vals ! i) (rows t))
       [0..<length (columns t)]"

text \<open>
  \<^verbatim>\<open>INSERT OR IGNORE INTO table_name VALUES (NULL, ?, ..., ?)\<close> and the commit. The
  statement fails when the table does not exist or has another number of columns. An
  insert that is ignored for a conflict stores no row, but it has used up an identifier.
\<close>

definition insert_record :: "string \<Rightarrow> sqlval list \<Rightarrow> db \<Rightarrow> py_error + db" where
  "insert_record table_name record_data d =
     (case d table_name of
        None \<Rightarrow> Inl OperationalError
      | Some t \<Rightarrow>
          (if length record_data \<noteq> length (columns t) then Inl OperationalError
           else if conflicts t record_data
           then Inr (d(table_name \<mapsto> t\<lparr>seq := seq t + 1\<rparr>))
           else Inr (d(table_name \<mapsto>
                  t\<lparr>rows := rows t @ [(seq t + 1, record_data)], seq := seq t + 1\<rparr>))))"

text \<open>A sequence of inserts on one connection; a failed statement changes nothing.\<close>

fun insert_all :: "(string \<times> sqlval list) list \<Rightarrow> db \<Rightarrow> db" where
  "insert_all [] d = d"
| "insert_all ((tn, vals) # rest) d =
     (case insert_record tn vals d of
        Inl e \<Rightarrow> insert_all rest d
      | Inr d1 \<Rightarrow> insert_all rest d1)"

text \<open>A sequence of inserts as the program makes them: the first failing statement
  raises.\<close>

fun insert_each :: "(string \<times> sqlval list) list \<Rightarrow> db \<Rightarrow> py_error + db" where
  "insert_each [] d = Inr d"
| "insert_each ((tn, vals) # rest) d =
     (case insert_record tn vals d of
        Inl e \<Rightarrow> Inl e
      | Inr d1 \<Rightarrow> insert_each rest d1)"

text \<open>The rows of a table (none when there is no such table), and those whose
  \<^verbatim>\<open>text\<close> column holds the given value.\<close>

definition rows_of :: "db \<Rightarrow> string \<Rightarrow> (int \<times> sqlval list) list" where
  "rows_of d table_name = (case d table_name of None \<Rightarrow> [] | Some t \<Rightarrow> rows t)"


definition rows_with_text :: "db \<Rightarrow> string \<Rightarrow> sqlval \<Rightarrow> (int \<times> sqlval list) list" where
  "rows_with_text d table_name v =
     (case d table_name of
        None \<Rightarrow> []
      | Some t \<Rightarrow> filter (\<lambda>r. snd r ! 0 = v) (rows t))"

section \<open>Observations and invariants\<close>

text \<open>The world a call leaves behind, and the exception that escaped it, if any.\<close>

definition world_of :: "'w result \<Rightarrow> 'w" where
  "world_of r = (case r of Ok w \<Rightarrow> w | Raise e w \<Rightarrow> w)"

definition raised :: "'w result \<Rightarrow> py_error option" where
  "raised r = (case r of Ok w \<Rightarrow> None | Raise e w \<Rightarrow> Some e)"

text \<open>The three variant tables with the columns \<^verbatim>\<open>create_tables\<close> declares.\<close>

definition variant_tables :: "(string \<times> (string \<times> coltype) list) list" where
  "variant_tables =
     [(''News'', news_columns), (''PrivateAd'', private_ad_columns), (''Event'', event_columns)]"

text \<open>The non-null values of the \<^verbatim>\<open>text\<close> column of a table, and the invariant of the
  table sink: the variant tables exist with their declared columns and hold no text twice.\<close>

definition texts :: "table \<Rightarrow> sqlval list" where
  "texts t = filter (\<lambda>v. v \<noteq> SqlNull) (map (\<lambda>r. snd r ! 0) (rows t))"

definition sink_invariant :: "db \<Rightarrow> bool" where
  "sink_invariant d =
     list_all (\<lambda>(tn, cols). case d tn of None \<Rightarrow> False
                              | Some t \<Rightarrow> columns t = cols \<and> distinct (texts t))
       variant_tables"

text \<open>\<^verbatim>\<open>record.find(t).text\<close> when both exist: the text of the first child with tag
  \<^verbatim>\<open>t\<close>, as the document has it.\<close>

definition element_text :: "xml \<Rightarrow> string \<Rightarrow> string option" where
  "element_text e t = (case find_child e t of None \<Rightarrow> None | Some c \<Rightarrow> etext c)"

text \<open>Following the specification's words, not the source: the difference of two instants
  in whole days, truncated toward zero.\<close>

definition days_truncated_toward_zero :: "int \<Rightarrow> int \<Rightarrow> int" where
  "days_truncated_toward_zero a b =
     (if a - b < 0 then - ((b - a) div us_per_day) else (a - b) div us_per_day)"

section \<open>Concrete worlds\<close>

text \<open>A world with an empty feed and no analytics files, whose clock starts at \<^verbatim>\<open>t\<close>
  and advances by one microsecond at every reading.\<close>

definition start_world :: "'s option \<Rightarrow> int \<Rightarrow> 's world" where
  "start_world src t =
     \<lparr>source = src, feed = [], word_count_file = None, letter_count_file = None,
      printed = [], clock = (\<lambda>n. t + int n), ticks = 0\<rparr>"

text \<open>2020-01-01 12:00:00.\<close>

definition noon_2020 :: int where
  "noon_2020 = 63713476800000000"

text \<open>A JSON file with a private ad whose date is no date, followed by a news item.\<close>

definition bad_date_json :: "pyval doc world" where
  "bad_date_json =
     start_world (Some (Doc (PList
       [PDict [(''type'', PStr ''private_ad''), (''text'', PStr ''bike for sale''),
               (''expiration_date'', PStr ''next week'')],
        PDict [(''type'', PStr ''news''), (''text'', PStr ''rain''), (''city'', PStr ''Oslo'')]])))
       noon_2020"


text \<open>A delimited file with one private ad whose date is no date.\<close>

definition bad_date_lines :: "string list world" where
  "bad_date_lines = start_world (Some [''PrivateAd|bike for sale|next week'']) noon_2020"

text \<open>An XML file with one event whose date is no date.\<close>

definition bad_date_xml :: "xml doc world" where
  "bad_date_xml =
     start_world (Some (Doc (Element ''records'' [] None
       [Element ''record'' [(''type'', ''event'')] None
          [Element ''text'' [] (Some '' concert '') [],
           Element ''location'' [] (Some ''Oslo'') [],
           Element ''event_date'' [] (Some ''soon'') []]])))
       noon_2020"

text \<open>A file of each kind whose only item has an unknown variant tag.\<close>

definition skipped_json :: "pyval doc world" where
  "skipped_json =
     start_world (Some (Doc (PList [PDict [(''type'', PStr ''poll''), (''text'', PStr ''x'')]])))
       noon_2020"

definition skipped_xml :: "xml doc world" where
  "skipped_xml =
     start_world (Some (Doc (Element ''records'' [] None
       [Element ''record'' [(''type'', ''poll'')] None [Element ''text'' [] (Some ''x'') []]])))
       noon_2020"

definition skipped_lines :: "string list world" where
  "skipped_lines = start_world (Some [''Poll|x|y'']) noon_2020"

text \<open>A delimited file whose second line has one field only, between two good lines.\<close>

definition one_field_lines :: "string list world" where
  "one_field_lines =
     start_world (Some [''News|rain|Oslo'', ''News'', ''News|sun|Rome'']) noon_2020"




section \<open>Properties\<close>

lemma normalize_text_example:
  "normalize_text ''hello  world. this iz it!'' = Inr (''Hello  world. This is it! World it.'', 5)"
  by (simp add: normalize_text_def re_split_sentences_def strip_def isspace_def re_sub_iz_def
      isword_def isalpha_def isdigit_def uppers_def lowers_def other_letters_def upper_char_def
      lower_char_def split_ws_def rstrip_chars_def)

text \<open>
  C1. The claim: \<^verbatim>\<open>normalize\<close> raises on no string, and on an input that is empty after
  trimming it returns the one sentence \<^verbatim>\<open>"."\<close> with whitespace count 0. The code: on the
  empty string the only sentence is empty, its list of words is empty, and taking the last
  word raises \<^verbatim>\<open>IndexError\<close>.
\<close>

theorem normalize_text_empty_raises:
  "normalize_text [] = Inl IndexError"
  by (simp add: normalize_text_def re_split_sentences_def strip_def re_sub_iz_def
      split_ws_def rstrip_chars_def)

text \<open>The same holds for every text that is empty after trimming.\<close>

lemma normalize_text_blank_raises:
  "strip text = [] \<Longrightarrow> normalize_text text = Inl IndexError"
  by (simp add: normalize_text_def re_split_sentences_def re_sub_iz_def split_ws_def
      rstrip_chars_def)

lemmas world_defs = now_def Record_init_def News_init_def PrivateAd_init_def Event_init_def
  save_to_file_def print_def remove_source_def publish_def update_counts_def
  update_word_count_def update_letter_count_def

lemmas eval_defs = world_defs start_world_def noon_2020_def raised_def world_of_def
  load_from_json_def load_from_xml_def process_file_def iter_items_def json_body_def
  xml_body_def line_body_def dict_get_def findall_def find_child_def find_text_strip_def
  element_text_def attr_val_def strptime_def strptime_match_def match_month_def match_day_def
  isdigit_def digit_val_def days_in_month_def is_leap_def timedelta_days_def midnight_def
  toordinal_def days_before_year_def days_before_month_def us_per_day_def
  strip_def isspace_def split_on_def split_ws_def rstrip_chars_def
  normalize_text_def re_split_sentences_def re_sub_iz_def isword_def isalpha_def isupper_def
  uppers_def lowers_def other_letters_def upper_char_def lower_char_def lower_def Let_def

lemma for_each_append:
  "for_each body (xs @ ys) w =
     (case for_each body xs w of Raise e w1 \<Rightarrow> Raise e w1 | Ok w1 \<Rightarrow> for_each body ys w1)"
  by (induction xs arbitrary: w) (auto split: result.splits)

lemma for_each_raise:
  assumes "for_each body pre w = Ok w1" and "body x w1 = Raise e w2"
  shows "for_each body (pre @ x # post) w = Raise e w2"
  using assms by (simp add: for_each_append)

lemma for_each_skip:
  assumes "body x w = Ok w1"
  shows "for_each body (x # xs) w = for_each body xs w1"
  using assms by simp

lemma for_each_source:
  assumes "\<And>x v. source (world_of (body x v)) = source v"
  shows "source (world_of (for_each body xs w)) = source w"
proof (induction xs arbitrary: w)
  case Nil
  show ?case by (simp add: world_of_def)
next
  case (Cons x xs)
  show ?case
  proof (cases "body x w")
    case (Ok w1)
    with assms[of x w] have "source w1 = source w" by (simp add: world_of_def)
    with Cons[of w1] Ok show ?thesis by simp
  next
    case (Raise e w1)
    with assms[of x w] show ?thesis by (simp add: world_of_def)
  qed
qed

lemma source_publish: "source (world_of (publish r w)) = source w"
  by (simp add: world_defs world_of_def Let_def split: pyval.splits)

lemma source_json_body: "source (world_of (json_body x w)) = source w"
  by (auto simp: json_body_def world_defs world_of_def Let_def split: pyval.splits sum.splits prod.splits)

lemma source_xml_body: "source (world_of (xml_body x w)) = source w"
  by (auto simp: xml_body_def world_defs world_of_def Let_def split: pyval.splits sum.splits prod.splits)

lemma source_line_body: "source (world_of (line_body x w)) = source w"
  by (auto simp: line_body_def world_defs world_of_def Let_def split: pyval.splits sum.splits prod.splits list.splits)


subsection \<open>Analytics\<close>

lemma update_counts_files:
  "update_counts (PStr t) w = Ok (update_letter_count t (update_word_count t w))"
  by (simp add: update_counts_def)

lemma for_each_update_snoc:
  "\<exists>w1. for_each update_counts (map PStr ts) w = Ok w1"
  by (induction ts arbitrary: w) (simp_all add: update_counts_def)

lemma map_of_bump:
  "map_of (bump m w) k =
     (if k = w then Some (case map_of m w of None \<Rightarrow> 1 | Some n \<Rightarrow> n + 1) else map_of m k)"
  by (induction m) auto

lemma keys_bump:
  "map fst (bump m w) = (if w \<in> set (map fst m) then map fst m else map fst m @ [w])"
  by (induction m) force+

lemma distinct_bump: "distinct (map fst m) \<Longrightarrow> distinct (map fst (bump m w))"
  by (simp add: keys_bump)

lemma distinct_foldl_bump: "distinct (map fst m) \<Longrightarrow> distinct (map fst (foldl bump m ws))"
  by (induction ws arbitrary: m) (simp_all add: distinct_bump)

lemma map_of_foldl_bump:
  "map_of (foldl bump m ws) k =
     (case map_of m k of
        None \<Rightarrow> (if k \<in> set ws then Some (count_list ws k) else None)
      | Some n \<Rightarrow> Some (n + count_list ws k))"
proof (induction ws arbitrary: m)
  case Nil
  show ?case by (simp split: option.splits)
next
  case (Cons a ws)
  show ?case
    by (simp add: Cons map_of_bump count_list_0_iff split: option.splits)
qed

lemma tally_counts:
  "map_of (foldl bump [] ws) k = (if k \<in> set ws then Some (count_list ws k) else None)"
  by (simp add: map_of_foldl_bump)

text \<open>
  C8. After any sequence of analytics updates, the word-count and the letter-count file
  are those a single update with the last text writes, whatever the world that single update
  starts from: each update overwrites both files with the counts of its own text. The
  word-count file holds each word of the lower-cased last text once, with the number of its
  occurrences there; the letter-count file holds the one row of the last text: the text, the
  number of its letters, the number of its upper-case letters and the percentage computed
  from these two.
\<close>

theorem analytics_reflect_latest_text:
  "\<exists>w1 w2 wc. for_each update_counts (map PStr (ts @ [t])) w = Ok w1
      \<and> update_counts (PStr t) w' = Ok w2
      \<and> word_count_file w1 = word_count_file w2
      \<and> letter_count_file w1 = letter_count_file w2
      \<and> word_count_file w1 = Some (foldl bump [] (split_ws (lower t)))
      \<and> word_count_file w1 = Some wc \<and> distinct (map fst wc)
      \<and> (\<forall>word. map_of wc word =
            (if word \<in> set (split_ws (lower t))
             then Some (count_list (split_ws (lower t)) word) else None))
      \<and> letter_count_file w1 =
          Some (t, length (filter isalpha t), length (filter isupper (filter isalpha t)),
                if filter isalpha t = [] then IntZero
                else FloatPercent (length (filter isupper (filter isalpha t)))
                       (length (filter isalpha t)))"
proof -
  obtain w0 where w0: "for_each update_counts (map PStr ts) w = Ok w0"
    using for_each_update_snoc by blast
  have run: "for_each update_counts (map PStr (ts @ [t])) w
          = Ok (update_letter_count t (update_word_count t w0))"
    by (simp add: for_each_append w0 update_counts_def)
  have d: "distinct (map fst (foldl bump [] (split_ws (lower t))))"
    by (rule distinct_foldl_bump) simp
  show ?thesis
    unfolding run using d
    by (simp add: update_counts_def update_letter_count_def update_word_count_def Let_def
        tally_counts)
qed

theorem analytics_reflect_latest_text_witness:
  "\<exists>w1. for_each update_counts (map PStr [''rain in Oslo'', ''B b a B''])
            (start_world (None :: unit option) noon_2020) = Ok w1
      \<and> word_count_file w1 = Some [(''b'', 3), (''a'', 1)]
      \<and> letter_count_file w1 = Some (''B b a B'', 4, 2, FloatPercent 2 4)"
proof -
  have e: "foldl bump [] (split_ws (lower ''B b a B'')) = [(''b'', 3), (''a'', 1)]"
    by (simp add: eval_defs)
  have l: "filter isalpha ''B b a B'' = ''BbaB''" "filter isupper ''BbaB'' = ''BB''"
    by (simp_all add: eval_defs)
  from analytics_reflect_latest_text[of "[''rain in Oslo'']" "''B b a B''"
      "start_world (None :: unit option) noon_2020" "start_world (None :: unit option) noon_2020"]
  obtain w1 where
    a: "for_each update_counts (map PStr ([''rain in Oslo''] @ [''B b a B'']))
          (start_world (None :: unit option) noon_2020) = Ok w1"
    and b: "word_count_file w1 = Some (foldl bump [] (split_ws (lower ''B b a B'')))"
    and c: "letter_count_file w1 =
          Some (''B b a B'', length (filter isalpha ''B b a B''),
                length (filter isupper (filter isalpha ''B b a B'')),
                if filter isalpha ''B b a B'' = [] then IntZero
                else FloatPercent (length (filter isupper (filter isalpha ''B b a B'')))
                       (length (filter isalpha ''B b a B'')))"
    by blast
  show ?thesis
    using a b c unfolding e l by (intro exI[of _ w1]) (simp del: for_each.simps)
qed

subsection \<open>The table sink\<close>

lemma create_table_exists:
  "d name \<noteq> None \<Longrightarrow> create_table_if_not_exists name cols d = d"
  by (auto simp: create_table_if_not_exists_def split: option.splits)

lemma create_table_dom:
  "create_table_if_not_exists name cols d n \<noteq> None \<longleftrightarrow> n = name \<or> d n \<noteq> None"
  by (auto simp: create_table_if_not_exists_def split: option.splits)

lemma insert_record_dom:
  "insert_record tn vals d = Inr d1 \<Longrightarrow> d1 n \<noteq> None \<longleftrightarrow> d n \<noteq> None"
  by (auto simp: insert_record_def split: option.splits if_splits)

lemma insert_all_dom: "insert_all ops d n \<noteq> None \<longleftrightarrow> d n \<noteq> None"
proof (induction ops arbitrary: d)
  case Nil
  show ?case by simp
next
  case (Cons a ops)
  obtain tn vals where a: "a = (tn, vals)" by (cases a)
  show ?case
  proof (cases "insert_record tn vals d")
    case (Inl e)
    then show ?thesis using Cons a by simp
  next
    case (Inr d1)
    then show ?thesis using Cons[of d1] a insert_record_dom[OF Inr, of n] by simp
  qed
qed

lemma create_tables_present:
  "d ''News'' \<noteq> None \<Longrightarrow> d ''PrivateAd'' \<noteq> None \<Longrightarrow> d ''Event'' \<noteq> None
     \<Longrightarrow> create_tables d = d"
  by (simp add: create_tables_def create_table_exists)

lemma create_tables_dom:
  "create_tables d n \<noteq> None \<longleftrightarrow> n = ''News'' \<or> n = ''PrivateAd'' \<or> n = ''Event'' \<or> d n \<noteq> None"
  unfolding create_tables_def create_table_dom by auto

text \<open>
  C9. Initialising the table sink again over a database on which it was initialised before,
  and into which any sequence of inserts was made since, changes nothing: every table keeps
  its columns and its rows.
\<close>

theorem create_tables_idempotent:
  "DatabaseManager_init (insert_all ops (DatabaseManager_init d))
     = insert_all ops (DatabaseManager_init d)"
  unfolding DatabaseManager_init_def
  by (rule create_tables_present) (simp_all only: insert_all_dom create_tables_dom, simp_all)


theorem create_tables_idempotent_witness:
  "DatabaseManager_init
     (insert_all [(''News'', [SqlText ''rain'', SqlText ''Oslo'', SqlText ''2020-01-01 12:00:00''])]
        (DatabaseManager_init (\<lambda>_. None)))
   = insert_all [(''News'', [SqlText ''rain'', SqlText ''Oslo'', SqlText ''2020-01-01 12:00:00''])]
       (DatabaseManager_init (\<lambda>_. None))"
  by (rule create_tables_idempotent)

lemma conflicts_variant:
  assumes "(tn, cols) \<in> set variant_tables" and "columns t = cols"
  shows "conflicts t vals \<longleftrightarrow> vals ! 0 \<noteq> SqlNull \<and> (\<exists>r \<in> set (rows t). snd r ! 0 = vals ! 0)"
proof -
  have c: "cols = news_columns \<or> cols = private_ad_columns \<or> cols = event_columns"
    using assms(1) by (auto simp: variant_tables_def)
  have "\<And>i. i < length cols \<Longrightarrow> snd (cols ! i) = TEXT_UNIQUE \<longleftrightarrow> i = 0"
    using c by (auto simp: news_columns_def private_ad_columns_def event_columns_def
        nth_Cons' less_Suc_eq numeral_3_eq_3 numeral_eq_Suc)
  moreover have "0 < length cols"
    using c by (auto simp: news_columns_def private_ad_columns_def event_columns_def)
  ultimately show ?thesis
    unfolding conflicts_def list_ex_iff assms(2) by auto
qed

lemma invariant_fresh: "sink_invariant (create_tables (\<lambda>_. None))"
  by (simp add: sink_invariant_def variant_tables_def create_tables_def
      create_table_if_not_exists_def texts_def)

lemma invariant_insert:
  assumes inv: "sink_invariant d" and ins: "insert_record tn vals d = Inr d1"
  shows "sink_invariant d1"
proof -
  have "case d1 n of None \<Rightarrow> False | Some t \<Rightarrow> columns t = cols \<and> distinct (texts t)"
    if mem: "(n, cols) \<in> set variant_tables" for n cols
  proof -
    from inv mem obtain t where t: "d n = Some t" "columns t = cols" "distinct (texts t)"
      by (auto simp: sink_invariant_def list_all_iff split: option.splits)
    show ?thesis
    proof (cases "n = tn")
      case False
      with ins t show ?thesis
        by (auto simp: insert_record_def split: option.splits if_splits)
    next
      case True
      show ?thesis
      proof (cases "conflicts t vals")
        case True
        with ins t \<open>n = tn\<close> show ?thesis
          by (auto simp: insert_record_def texts_def split: if_splits)
      next
        case False
        then have "vals ! 0 = SqlNull \<or> vals ! 0 \<notin> set (texts t)"
          using conflicts_variant[OF mem t(2), of vals] by (auto simp: texts_def)
        with ins t \<open>n = tn\<close> False show ?thesis
          by (auto simp: insert_record_def texts_def split: if_splits)
      qed
    qed
  qed
  then show ?thesis
    by (auto simp: sink_invariant_def list_all_iff)
qed

lemma invariant_insert_all: "sink_invariant d \<Longrightarrow> sink_invariant (insert_all ops d)"
proof (induction ops arbitrary: d)
  case Nil
  then show ?case by simp
next
  case (Cons a ops)
  obtain tn vals where a: "a = (tn, vals)" by (cases a)
  show ?case
  proof (cases "insert_record tn vals d")
    case (Inl e)
    then show ?thesis using Cons a by simp
  next
    case (Inr d1)
    then show ?thesis using Cons.IH[OF invariant_insert[OF Cons.prems Inr]] a by simp
  qed
qed

lemma filter_eq_length_le1:
  assumes "distinct (filter (\<lambda>v. v \<noteq> SqlNull) (map f xs))" and "v \<noteq> SqlNull"
  shows "length (filter (\<lambda>r. f r = v) xs) \<le> 1"
  using assms
proof (induction xs)
  case Nil
  then show ?case by simp
next
  case (Cons x xs)
  show ?case
  proof (cases "f x = v")
    case True
    with Cons.prems have "v \<notin> set (map f xs)" by auto
    then have "filter (\<lambda>r. f r = v) xs = []" by (auto simp: filter_empty_conv)
    with True show ?thesis by simp
  next
    case False
    with Cons show ?thesis by (auto split: if_splits)
  qed
qed

lemma insert_dup_ignored:
  assumes "d tn = Some t" "columns t = cols" "(tn, cols) \<in> set variant_tables"
    and "length v = length cols" "v ! 0 = SqlText txt"
    and "\<exists>r \<in> set (rows t). snd r ! 0 = SqlText txt"
  shows "insert_record tn v d = Inr (d(tn \<mapsto> t\<lparr>seq := seq t + 1\<rparr>))"
  using assms conflicts_variant[OF assms(3) assms(2), of v]
  by (simp add: insert_record_def)

lemma insert_dups_ignored:
  assumes "(tn, cols) \<in> set variant_tables"
    and "\<forall>v \<in> set others. length v = length cols \<and> v ! 0 = SqlText txt"
    and "d1 tn = Some t1" "columns t1 = cols"
    and "\<exists>r \<in> set (rows t1). snd r ! 0 = SqlText txt"
  shows "\<exists>dn tl. insert_each (map (Pair tn) others) d1 = Inr dn \<and> dn tn = Some tl
           \<and> rows tl = rows t1 \<and> (\<forall>n. n \<noteq> tn \<longrightarrow> dn n = d1 n)"
  using assms(2-5)
proof (induction others arbitrary: d1 t1)
  case Nil
  then show ?case by simp
next
  case (Cons v others)
  let ?t2 = "t1\<lparr>seq := seq t1 + 1\<rparr>"
  let ?d2 = "d1(tn \<mapsto> ?t2)"
  have step: "insert_record tn v d1 = Inr ?d2"
    using insert_dup_ignored[of d1 tn t1 cols v "txt"] Cons.prems assms(1) by simp
  have "\<exists>dn tl. insert_each (map (Pair tn) others) ?d2 = Inr dn \<and> dn tn = Some tl
           \<and> rows tl = rows ?t2 \<and> (\<forall>n. n \<noteq> tn \<longrightarrow> dn n = ?d2 n)"
    using Cons.prems by (intro Cons.IH) simp_all
  then show ?case
    using step by auto
qed

text \<open>
  C4. In a database reached from a fresh one by the sink's initialisation and any inserts,
  inserting a record with text \<^verbatim>\<open>txt\<close> into a variant table and then inserting records
  with the same text any number of times leaves exactly one row with that text: every one
  of the later inserts returns without error, after all of them the rows of every table are
  those the first insert left, the rows with other texts are those from before and the other
  tables are untouched.
\<close>

theorem duplicate_insert_ignored:
  assumes tab: "(tn, cols) \<in> set variant_tables"
    and len: "length vals = length cols" and vtxt: "vals ! 0 = SqlText txt"
    and dups: "\<forall>v \<in> set others. length v = length cols \<and> v ! 0 = SqlText txt"
    and d: "d = insert_all ops (create_tables (\<lambda>_. None))"
  shows "\<exists>d1 dn. insert_record tn vals d = Inr d1
           \<and> insert_each (map (Pair tn) others) d1 = Inr dn
           \<and> (\<forall>n. rows_of dn n = rows_of d1 n)
           \<and> length (rows_with_text dn tn (SqlText txt)) = 1
           \<and> (\<forall>v. v \<noteq> SqlText txt \<longrightarrow> rows_with_text dn tn v = rows_with_text d tn v)
           \<and> (\<forall>n. n \<noteq> tn \<longrightarrow> dn n = d n)"
proof -
  have inv: "sink_invariant d"
    unfolding d by (rule invariant_insert_all[OF invariant_fresh])
  from inv tab obtain t where t: "d tn = Some t" "columns t = cols" "distinct (texts t)"
    by (auto simp: sink_invariant_def list_all_iff split: option.splits)
  obtain d1 where d1: "insert_record tn vals d = Inr d1"
    using t len by (cases "conflicts t vals") (auto simp: insert_record_def)
  have inv1: "sink_invariant d1" by (rule invariant_insert[OF inv d1])
  from inv1 tab obtain t1 where t1: "d1 tn = Some t1" "columns t1 = cols" "distinct (texts t1)"
    by (auto simp: sink_invariant_def list_all_iff split: option.splits)
  have cf: "conflicts t vals \<longleftrightarrow> (\<exists>r \<in> set (rows t). snd r ! 0 = SqlText txt)"
    using conflicts_variant[OF tab t(2), of vals] vtxt by simp
  have rows1: "rows t1 = (if conflicts t vals then rows t else rows t @ [(seq t + 1, vals)])"
    using d1 t t1 len by (auto simp: insert_record_def split: if_splits)
  have ex1: "\<exists>r \<in> set (rows t1). snd r ! 0 = SqlText txt"
    using rows1 cf vtxt by auto
  obtain dn tl where dn: "insert_each (map (Pair tn) others) d1 = Inr dn" "dn tn = Some tl"
      "rows tl = rows t1" "\<forall>n. n \<noteq> tn \<longrightarrow> dn n = d1 n"
    using insert_dups_ignored[where tn = tn and cols = cols and others = others
        and ?d1.0 = d1 and ?t1.0 = t1, of "txt"] tab dups t1(1,2) ex1 by blast
  have same: "rows_of dn n = rows_of d1 n" for n
    using dn t1(1) by (cases "n = tn") (simp_all add: rows_of_def)
  have le: "length (filter (\<lambda>r. snd r ! 0 = SqlText txt) (rows t1)) \<le> 1"
    using filter_eq_length_le1[of "\<lambda>r. snd r ! 0" "rows t1" "SqlText txt"] t1(3)
    by (simp add: texts_def)
  have ge: "filter (\<lambda>r. snd r ! 0 = SqlText txt) (rows t1) \<noteq> []"
    using ex1 by (auto simp: filter_empty_conv)
  have one: "length (rows_with_text dn tn (SqlText txt)) = 1"
    using le ge dn(2,3) by (cases "filter (\<lambda>r. snd r ! 0 = SqlText txt) (rows t1)")
      (auto simp: rows_with_text_def)
  have other: "rows_with_text dn tn v = rows_with_text d tn v" if "v \<noteq> SqlText txt" for v
    using rows1 t dn(2,3) vtxt that by (auto simp: rows_with_text_def)
  have rest1: "d1 n = d n" if "n \<noteq> tn" for n
    using d1 that by (auto simp: insert_record_def split: option.splits if_splits)
  have rest: "dn n = d n" if "n \<noteq> tn" for n
    using dn(4) rest1 that by simp
  show ?thesis
    using d1 dn(1) same one other rest by blast
qed

theorem duplicate_insert_ignored_witness:
  "(''News'', news_columns) \<in> set variant_tables
   \<and> length [SqlText ''a'', SqlText ''Oslo'', SqlText ''t1''] = length news_columns
   \<and> (\<exists>d1 dn. insert_record ''News'' [SqlText ''a'', SqlText ''Oslo'', SqlText ''t1'']
              (insert_all [] (create_tables (\<lambda>_. None))) = Inr d1
         \<and> insert_each [(''News'', [SqlText ''a'', SqlText ''Rome'', SqlText ''t2''])] d1 = Inr dn
         \<and> length (rows_with_text dn ''News'' (SqlText ''a'')) = 1)"
  using duplicate_insert_ignored[of "''News''" news_columns
      "[SqlText ''a'', SqlText ''Oslo'', SqlText ''t1'']" "''a''"
      "[[SqlText ''a'', SqlText ''Rome'', SqlText ''t2'']]"
      "insert_all [] (create_tables (\<lambda>_. None))" "[]"]
  by (simp add: variant_tables_def news_columns_def) blast

text \<open>An ignored insert stores no row but uses up an identifier: after a row, a duplicate
  of it and another row, the two rows have the identifiers 1 and 3.\<close>

lemma ignored_insert_uses_identifier:
  "map_sum id (\<lambda>d. rows_of d ''News'')
     (insert_each
        [(''News'', [SqlText ''a'', SqlText ''Oslo'', SqlText ''t1'']),
         (''News'', [SqlText ''a'', SqlText ''Rome'', SqlText ''t2'']),
         (''News'', [SqlText ''b'', SqlText ''Rome'', SqlText ''t3''])]
        (create_tables (\<lambda>_. None)))
   = Inr [(1, [SqlText ''a'', SqlText ''Oslo'', SqlText ''t1'']),
          (3, [SqlText ''b'', SqlText ''Rome'', SqlText ''t3''])]"
  by (simp add: create_tables_def create_table_if_not_exists_def insert_record_def
      conflicts_def news_columns_def rows_of_def)

subsection \<open>Derived days\<close>

lemma strptime_str_cases: "strptime (PStr s) = Inl ValueError \<or> (\<exists>d. strptime (PStr s) = Inr d)"
  by (auto simp: strptime_def split: option.splits)

text \<open>
  C3, as claimed, fails: with the expiration date 2020-01-01 and the clock at noon of that
  day, \<^verbatim>\<open>days_left\<close> is -1, where truncation toward zero gives 0.
\<close>

theorem days_left_truncation_counterexample:
  "fst (PrivateAd_init (PStr ''x'') (PStr ''2020-01-01'') (start_world (None :: unit option) noon_2020))
     = Inr (PrivateAd (PStr ''x'') (Date 2020 1 1) (- 1) 63713476800)
   \<and> days_truncated_toward_zero (midnight (Date 2020 1 1)) (noon_2020 + 1) = 0"
  by (simp add: world_defs start_world_def noon_2020_def strptime_def strptime_match_def
      match_month_def match_day_def isdigit_def digit_val_def days_in_month_def is_leap_def
      timedelta_days_def midnight_def toordinal_def days_before_year_def days_before_month_def
      us_per_day_def days_truncated_toward_zero_def Let_def)

text \<open>
  C3, amended. A private ad constructed from a valid date string always gets constructed,
  and its \<^verbatim>\<open>days_left\<close> is the difference between midnight of the expiration date and the
  clock reading taken for it, in whole days rounded down (toward minus infinity): it is
  negative whenever that midnight is already past.
\<close>

theorem days_left_is_floor:
  assumes "strptime (PStr s) = Inr d"
  shows "\<exists>dl pub. PrivateAd_init t (PStr s) w
             = (Inr (PrivateAd t d dl pub), w\<lparr>ticks := Suc (Suc (ticks w))\<rparr>)
          \<and> dl = (midnight d - clock w (Suc (ticks w))) div us_per_day
          \<and> dl * us_per_day \<le> midnight d - clock w (Suc (ticks w))
          \<and> midnight d - clock w (Suc (ticks w)) < (dl + 1) * us_per_day
          \<and> (midnight d < clock w (Suc (ticks w)) \<longrightarrow> dl < 0)"
proof -
  define delta where "delta = midnight d - clock w (Suc (ticks w))"
  define dl where "dl = delta div us_per_day"
  have pos: "0 < us_per_day" by (simp add: us_per_day_def)
  have eq: "dl * us_per_day = delta - delta mod us_per_day"
    unfolding dl_def by (simp add: minus_mod_eq_div_mult)
  have lo: "dl * us_per_day \<le> delta"
    using eq pos_mod_sign[OF pos, of delta] by linarith
  have "(dl + 1) * us_per_day = dl * us_per_day + us_per_day"
    by (simp add: algebra_simps)
  then have hi: "delta < (dl + 1) * us_per_day"
    using eq pos_mod_bound[OF pos, of delta] by linarith
  have neg: "dl < 0" if "midnight d < clock w (Suc (ticks w))"
    unfolding dl_def using that pos by (simp add: delta_def div_neg_pos_less0)
  have "PrivateAd_init t (PStr s) w
          = (Inr (PrivateAd t d dl (clock w (ticks w) div 1000000)),
             w\<lparr>ticks := Suc (Suc (ticks w))\<rparr>)"
    by (simp add: world_defs assms timedelta_days_def dl_def delta_def)
  with lo hi neg show ?thesis
    unfolding dl_def delta_def by blast
qed


theorem days_left_is_floor_witness:
  "strptime (PStr ''2020-01-01'') = Inr (Date 2020 1 1)
   \<and> (\<exists>dl pub. PrivateAd_init (PStr ''x'') (PStr ''2020-01-01'')
                   (start_world (None :: unit option) noon_2020)
                 = (Inr (PrivateAd (PStr ''x'') (Date 2020 1 1) dl pub),
                    (start_world None noon_2020)\<lparr>ticks := 2\<rparr>)
          \<and> dl < 0)"
proof -
  have h: "strptime (PStr ''2020-01-01'') = Inr (Date 2020 1 1)"
    by (simp add: eval_defs)
  have past: "midnight (Date 2020 1 1)
                < clock (start_world (None :: unit option) noon_2020)
                    (Suc (ticks (start_world (None :: unit option) noon_2020)))"
    by (simp add: eval_defs)
  have two: "Suc (Suc (ticks (start_world (None :: unit option) noon_2020))) = 2"
    by (simp add: start_world_def)
  from days_left_is_floor[OF h, of "PStr ''x''" "start_world (None :: unit option) noon_2020"]
    past two h
  show ?thesis by auto
qed

subsection \<open>Dates that do not parse\<close>

lemma PrivateAd_init_raises:
  "strptime v = Inl e \<Longrightarrow> PrivateAd_init t v w = (Inl e, w\<lparr>ticks := Suc (ticks w)\<rparr>)"
  by (simp add: world_defs)

lemma Event_init_raises:
  "strptime v = Inl e \<Longrightarrow> Event_init t l v w = (Inl e, w\<lparr>ticks := Suc (ticks w)\<rparr>)"
  by (simp add: world_defs)

lemma json_body_bad_date:
  assumes "(dict_get d ''type'' = PStr ''private_ad'' \<and> dict_get d ''expiration_date'' = PStr s)
         \<or> (dict_get d ''type'' = PStr ''event'' \<and> dict_get d ''event_date'' = PStr s)"
    and "strptime (PStr s) = Inl ValueError"
  shows "json_body (PDict d) w = Raise ValueError (w\<lparr>ticks := Suc (ticks w)\<rparr>)"
  using assms by (auto simp: json_body_def PrivateAd_init_raises Event_init_raises)

lemma xml_body_bad_date:
  assumes "find_text_strip rec ''text'' = Inr t"
    and "(map_of (attrib rec) ''type'' = Some ''private_ad''
            \<and> find_text_strip rec ''expiration_date'' = Inr s)
         \<or> (map_of (attrib rec) ''type'' = Some ''event''
            \<and> find_text_strip rec ''location'' = Inr l
            \<and> find_text_strip rec ''event_date'' = Inr s)"
    and "strptime (PStr s) = Inl ValueError"
  shows "xml_body rec w = Raise ValueError (w\<lparr>ticks := Suc (ticks w)\<rparr>)"
  using assms by (auto simp: xml_body_def PrivateAd_init_raises Event_init_raises)

lemma line_body_bad_date:
  assumes "split_on (CHR ''|'') (strip line) = p0 # p1 # ps"
    and "normalize_text (strip p1) = Inr (nt, n)"
    and "(strip p0 = ''PrivateAd'' \<and> ps = [f])
         \<or> (strip p0 = ''Event'' \<and> ps = [l, f])"
    and "strptime (PStr (strip f)) = Inl ValueError"
  shows "line_body line w = Raise ValueError (w\<lparr>ticks := Suc (ticks w)\<rparr>)"
  using assms by (auto simp: line_body_def PrivateAd_init_raises Event_init_raises)

lemma load_from_json_raise:
  assumes "source w = Some (Doc (PList (pre @ x # post)))"
    and "for_each json_body pre w = Ok w1" and "json_body x w1 = Raise e w2"
  shows "load_from_json w = Raise e w2" and "source w2 = source w"
proof -
  show "load_from_json w = Raise e w2"
    using assms by (simp add: load_from_json_def iter_items_def for_each_raise)
  have "source w1 = source w"
    using for_each_source[of json_body pre w, OF source_json_body] assms(2)
    by (simp add: world_of_def)
  moreover have "source w2 = source w1"
    using source_json_body[of x w1] assms(3) by (simp add: world_of_def)
  ultimately show "source w2 = source w" by simp
qed

lemma load_from_xml_raise:
  assumes "source w = Some (Doc rt)" and "findall rt ''record'' = pre @ x # post"
    and "for_each xml_body pre w = Ok w1" and "xml_body x w1 = Raise e w2"
  shows "load_from_xml w = Raise e w2" and "source w2 = source w"
proof -
  show "load_from_xml w = Raise e w2"
    using assms by (simp add: load_from_xml_def for_each_raise)
  have "source w1 = source w"
    using for_each_source[of xml_body pre w, OF source_xml_body] assms(3)
    by (simp add: world_of_def)
  moreover have "source w2 = source w1"
    using source_xml_body[of x w1] assms(4) by (simp add: world_of_def)
  ultimately show "source w2 = source w" by simp
qed

lemma process_file_raise:
  assumes "source w = Some (pre @ x # post)"
    and "for_each line_body pre w = Ok w1" and "line_body x w1 = Raise e w2"
  shows "process_file w = Raise e w2" and "source w2 = source w"
proof -
  show "process_file w = Raise e w2"
    using assms by (simp add: process_file_def for_each_raise)
  have "source w1 = source w"
    using for_each_source[of line_body pre w, OF source_line_body] assms(2)
    by (simp add: world_of_def)
  moreover have "source w2 = source w1"
    using source_line_body[of x w1] assms(3) by (simp add: world_of_def)
  ultimately show "source w2 = source w" by simp
qed

text \<open>
  C2, as claimed, fails: a JSON file whose first item is a private ad with the date
  \<^verbatim>\<open>next week\<close> makes the call raise \<^verbatim>\<open>ValueError\<close>; the news item after it is never
  written and the file is still there.
\<close>

theorem date_error_not_caught_counterexample:
  "raised (load_from_json bad_date_json) = Some ValueError
   \<and> feed (world_of (load_from_json bad_date_json)) = []
   \<and> source (world_of (load_from_json bad_date_json)) = source bad_date_json
   \<and> source bad_date_json \<noteq> None"
  by (simp add: bad_date_json_def eval_defs)

text \<open>
  C2, amended. In each of the three file adapters, an item that reaches the construction of
  a private ad or an event with a date string that does not parse raises \<^verbatim>\<open>ValueError\<close>,
  and nothing catches it: the call raises it, in the world the items before it left (with one
  more clock reading), so the items after it are not processed, and the source file stays.
\<close>

theorem invalid_date_aborts_batch:
  assumes bad: "strptime (PStr s) = Inl ValueError"
  shows
    "(source wj = Some (Doc (PList (pre @ PDict d # post)))
        \<and> for_each json_body pre wj = Ok wj1
        \<and> ((dict_get d ''type'' = PStr ''private_ad'' \<and> dict_get d ''expiration_date'' = PStr s)
           \<or> (dict_get d ''type'' = PStr ''event'' \<and> dict_get d ''event_date'' = PStr s))
      \<longrightarrow> load_from_json wj = Raise ValueError (wj1\<lparr>ticks := Suc (ticks wj1)\<rparr>)
          \<and> source wj1 = source wj)
   \<and> (source wx = Some (Doc rt) \<and> findall rt ''record'' = xpre @ rec # xpost
        \<and> for_each xml_body xpre wx = Ok wx1
        \<and> find_text_strip rec ''text'' = Inr t
        \<and> ((map_of (attrib rec) ''type'' = Some ''private_ad''
              \<and> find_text_strip rec ''expiration_date'' = Inr s)
           \<or> (map_of (attrib rec) ''type'' = Some ''event''
              \<and> find_text_strip rec ''location'' = Inr l
              \<and> find_text_strip rec ''event_date'' = Inr s))
      \<longrightarrow> load_from_xml wx = Raise ValueError (wx1\<lparr>ticks := Suc (ticks wx1)\<rparr>)
          \<and> source wx1 = source wx)
   \<and> (source wl = Some (lpre @ line # lpost)
        \<and> for_each line_body lpre wl = Ok wl1
        \<and> split_on (CHR ''|'') (strip line) = p0 # p1 # ps
        \<and> normalize_text (strip p1) = Inr (nt, n)
        \<and> ((strip p0 = ''PrivateAd'' \<and> ps = [f]) \<or> (strip p0 = ''Event'' \<and> ps = [l', f]))
        \<and> strip f = s
      \<longrightarrow> process_file wl = Raise ValueError (wl1\<lparr>ticks := Suc (ticks wl1)\<rparr>)
          \<and> source wl1 = source wl)"
proof (intro conjI impI)
  assume a: "source wj = Some (Doc (PList (pre @ PDict d # post)))
        \<and> for_each json_body pre wj = Ok wj1
        \<and> ((dict_get d ''type'' = PStr ''private_ad'' \<and> dict_get d ''expiration_date'' = PStr s)
           \<or> (dict_get d ''type'' = PStr ''event'' \<and> dict_get d ''event_date'' = PStr s))"
  then have b: "json_body (PDict d) wj1 = Raise ValueError (wj1\<lparr>ticks := Suc (ticks wj1)\<rparr>)"
    using json_body_bad_date[OF _ bad] by blast
  from a b show "load_from_json wj = Raise ValueError (wj1\<lparr>ticks := Suc (ticks wj1)\<rparr>)"
    using load_from_json_raise(1) by blast
  from a b have "source (wj1\<lparr>ticks := Suc (ticks wj1)\<rparr>) = source wj"
    using load_from_json_raise(2) by blast
  then show "source wj1 = source wj" by simp
next
  assume a: "source wx = Some (Doc rt) \<and> findall rt ''record'' = xpre @ rec # xpost
        \<and> for_each xml_body xpre wx = Ok wx1
        \<and> find_text_strip rec ''text'' = Inr t
        \<and> ((map_of (attrib rec) ''type'' = Some ''private_ad''
              \<and> find_text_strip rec ''expiration_date'' = Inr s)
           \<or> (map_of (attrib rec) ''type'' = Some ''event''
              \<and> find_text_strip rec ''location'' = Inr l
              \<and> find_text_strip rec ''event_date'' = Inr s))"
  then have b: "xml_body rec wx1 = Raise ValueError (wx1\<lparr>ticks := Suc (ticks wx1)\<rparr>)"
    using xml_body_bad_date[OF _ _ bad] by blast
  from a b show "load_from_xml wx = Raise ValueError (wx1\<lparr>ticks := Suc (ticks wx1)\<rparr>)"
    using load_from_xml_raise(1) by blast
  from a b have "source (wx1\<lparr>ticks := Suc (ticks wx1)\<rparr>) = source wx"
    using load_from_xml_raise(2) by blast
  then show "source wx1 = source wx" by simp
next
  assume a: "source wl = Some (lpre @ line # lpost)
        \<and> for_each line_body lpre wl = Ok wl1
        \<and> split_on (CHR ''|'') (strip line) = p0 # p1 # ps
        \<and> normalize_text (strip p1) = Inr (nt, n)
        \<and> ((strip p0 = ''PrivateAd'' \<and> ps = [f]) \<or> (strip p0 = ''Event'' \<and> ps = [l', f]))
        \<and> strip f = s"
  then have b: "line_body line wl1 = Raise ValueError (wl1\<lparr>ticks := Suc (ticks wl1)\<rparr>)"
    using line_body_bad_date[of line p0 p1 ps nt n f l' wl1] bad by blast
  from a b show "process_file wl = Raise ValueError (wl1\<lparr>ticks := Suc (ticks wl1)\<rparr>)"
    using process_file_raise(1) by blast
  from a b have "source (wl1\<lparr>ticks := Suc (ticks wl1)\<rparr>) = source wl"
    using process_file_raise(2) by blast
  then show "source wl1 = source wl" by simp
qed


theorem invalid_date_aborts_batch_witness:
  "strptime (PStr ''next week'') = Inl ValueError
   \<and> load_from_json bad_date_json
       = Raise ValueError (bad_date_json\<lparr>ticks := Suc (ticks bad_date_json)\<rparr>)
   \<and> strptime (PStr ''soon'') = Inl ValueError
   \<and> load_from_xml bad_date_xml
       = Raise ValueError (bad_date_xml\<lparr>ticks := Suc (ticks bad_date_xml)\<rparr>)
   \<and> process_file bad_date_lines
       = Raise ValueError (bad_date_lines\<lparr>ticks := Suc (ticks bad_date_lines)\<rparr>)"
proof -
  have h1: "strptime (PStr ''next week'') = Inl ValueError"
    by (simp add: eval_defs)
  have h2: "strptime (PStr ''soon'') = Inl ValueError"
    by (simp add: eval_defs)
  let ?d = "[(''type'', PStr ''private_ad''), (''text'', PStr ''bike for sale''),
             (''expiration_date'', PStr ''next week'')]"
  let ?post = "[PDict [(''type'', PStr ''news''), (''text'', PStr ''rain''), (''city'', PStr ''Oslo'')]]"
  let ?rec = "Element ''record'' [(''type'', ''event'')] None
          [Element ''text'' [] (Some '' concert '') [],
           Element ''location'' [] (Some ''Oslo'') [],
           Element ''event_date'' [] (Some ''soon'') []]"
  let ?rt = "Element ''records'' [] None [?rec]"
  have j: "source bad_date_json = Some (Doc (PList ([] @ PDict ?d # ?post)))
        \<and> for_each json_body [] bad_date_json = Ok bad_date_json
        \<and> ((dict_get ?d ''type'' = PStr ''private_ad''
              \<and> dict_get ?d ''expiration_date'' = PStr ''next week'')
           \<or> (dict_get ?d ''type'' = PStr ''event'' \<and> dict_get ?d ''event_date'' = PStr ''next week''))"
    by (simp add: bad_date_json_def start_world_def dict_get_def)
  have l: "source bad_date_lines = Some ([] @ ''PrivateAd|bike for sale|next week'' # [])
        \<and> for_each line_body [] bad_date_lines = Ok bad_date_lines
        \<and> split_on (CHR ''|'') (strip ''PrivateAd|bike for sale|next week'')
            = ''PrivateAd'' # ''bike for sale'' # [''next week'']
        \<and> normalize_text (strip ''bike for sale'') = Inr (''Bike for sale Sale.'', 2)
        \<and> ((strip ''PrivateAd'' = ''PrivateAd'' \<and> [''next week''] = [''next week''])
           \<or> (strip ''PrivateAd'' = ''Event'' \<and> [''next week''] = [[], ''next week'']))
        \<and> strip ''next week'' = ''next week''"
    by (simp add: bad_date_lines_def eval_defs)
  have x: "source bad_date_xml = Some (Doc ?rt) \<and> findall ?rt ''record'' = [] @ ?rec # []
        \<and> for_each xml_body [] bad_date_xml = Ok bad_date_xml
        \<and> find_text_strip ?rec ''text'' = Inr ''concert''
        \<and> ((map_of (attrib ?rec) ''type'' = Some ''private_ad''
              \<and> find_text_strip ?rec ''expiration_date'' = Inr ''soon'')
           \<or> (map_of (attrib ?rec) ''type'' = Some ''event''
              \<and> find_text_strip ?rec ''location'' = Inr ''Oslo''
              \<and> find_text_strip ?rec ''event_date'' = Inr ''soon''))"
    by (simp add: bad_date_xml_def eval_defs)
  have a: "load_from_json bad_date_json
       = Raise ValueError (bad_date_json\<lparr>ticks := Suc (ticks bad_date_json)\<rparr>)"
    using invalid_date_aborts_batch[OF h1, where wj = bad_date_json and pre = "[]"
        and d = ?d and post = ?post and ?wj1.0 = bad_date_json] j by blast
  have b: "process_file bad_date_lines
       = Raise ValueError (bad_date_lines\<lparr>ticks := Suc (ticks bad_date_lines)\<rparr>)"
    using invalid_date_aborts_batch[OF h1, where wl = bad_date_lines and lpre = "[]"
        and line = "''PrivateAd|bike for sale|next week''" and lpost = "[]"
        and ?wl1.0 = bad_date_lines and ?p0.0 = "''PrivateAd''" and ?p1.0 = "''bike for sale''"
        and ps = "[''next week'']" and nt = "''Bike for sale Sale.''" and n = 2
        and f = "''next week''" and l' = "[]"] l by blast
  have c: "load_from_xml bad_date_xml
       = Raise ValueError (bad_date_xml\<lparr>ticks := Suc (ticks bad_date_xml)\<rparr>)"
    using invalid_date_aborts_batch[OF h2, where wx = bad_date_xml and rt = ?rt
        and xpre = "[]" and rec = ?rec and xpost = "[]" and ?wx1.0 = bad_date_xml
        and t = "''concert''" and l = "''Oslo''"] x by blast
  from h1 h2 a b c show ?thesis by blast
qed

subsection \<open>What the adapters do to field values\<close>



lemma publish_str: "text_of r = PStr t \<Longrightarrow> \<exists>w'. publish r w = Ok w'"
  by (simp add: publish_def update_counts_def)


lemma json_body_news_any_text:
  assumes "dict_get d ''type'' = PStr ''news''" and "dict_get d ''text'' = PStr t"
  shows "\<exists>w'. json_body (PDict d) w = Ok w'
           \<and> feed w' = feed w @ [News (PStr t) (dict_get d ''city'') (clock w (ticks w) div 1000000)]"
  using assms by (simp add: json_body_def world_defs Let_def)






subsection \<open>Deleting the source\<close>

text \<open>
  C7. In the JSON, the XML and the delimited-line adapter alike: when the source file does
  not exist the call reports it and returns, with nothing written and nothing deleted; and
  when the loop over the items of an existing source runs to its end, whatever items it
  skipped, the call deletes the source file and returns.
\<close>

theorem source_deleted_after_loop:
  "(source wj = None \<longrightarrow>
      load_from_json wj = Ok (print FileDoesNotExist wj)
      \<and> source (print FileDoesNotExist wj) = None
      \<and> feed (print FileDoesNotExist wj) = feed wj)
   \<and> (source wj = Some (Doc v) \<and> iter_items v = Inr items
        \<and> for_each json_body items wj = Ok wj1 \<longrightarrow>
      load_from_json wj = Ok (remove_source wj1) \<and> source (remove_source wj1) = None)
   \<and> (source wx = None \<longrightarrow>
      load_from_xml wx = Ok (print FileDoesNotExist wx)
      \<and> source (print FileDoesNotExist wx) = None
      \<and> feed (print FileDoesNotExist wx) = feed wx)
   \<and> (source wx = Some (Doc rt) \<and> for_each xml_body (findall rt ''record'') wx = Ok wx1 \<longrightarrow>
      load_from_xml wx = Ok (remove_source wx1) \<and> source (remove_source wx1) = None)
   \<and> (source wl = None \<longrightarrow>
      process_file wl = Ok (print FileDoesNotExist wl)
      \<and> source (print FileDoesNotExist wl) = None
      \<and> feed (print FileDoesNotExist wl) = feed wl)
   \<and> (source wl = Some ls \<and> for_each line_body ls wl = Ok wl1 \<longrightarrow>
      process_file wl = Ok (remove_source wl1) \<and> source (remove_source wl1) = None)"
  by (simp add: load_from_json_def load_from_xml_def process_file_def print_def
      remove_source_def)

theorem source_deleted_after_loop_witness:
  "load_from_json (start_world None noon_2020)
     = Ok (print FileDoesNotExist (start_world None noon_2020))
   \<and> load_from_json skipped_json
     = Ok (remove_source (print (UnknownRecordType (PStr ''poll'')) skipped_json))
   \<and> load_from_xml (start_world None noon_2020)
     = Ok (print FileDoesNotExist (start_world None noon_2020))
   \<and> load_from_xml skipped_xml
     = Ok (remove_source (print (UnknownRecordType (PStr ''poll'')) skipped_xml))
   \<and> process_file (start_world None noon_2020)
     = Ok (print FileDoesNotExist (start_world None noon_2020))
   \<and> process_file skipped_lines
     = Ok (remove_source (print (InvalidRecordFormat ''Poll|x|y'') skipped_lines))
   \<and> source (remove_source (print (InvalidRecordFormat ''Poll|x|y'') skipped_lines)) = None"
proof -
  let ?item = "PDict [(''type'', PStr ''poll''), (''text'', PStr ''x'')]"
  let ?rec = "Element ''record'' [(''type'', ''poll'')] None [Element ''text'' [] (Some ''x'') []]"
  let ?rt = "Element ''records'' [] None [?rec]"
  have j: "source skipped_json = Some (Doc (PList [?item])) \<and> iter_items (PList [?item]) = Inr [?item]
      \<and> for_each json_body [?item] skipped_json
          = Ok (print (UnknownRecordType (PStr ''poll'')) skipped_json)"
    by (simp add: skipped_json_def eval_defs)
  have x: "source skipped_xml = Some (Doc ?rt)
      \<and> for_each xml_body (findall ?rt ''record'') skipped_xml
          = Ok (print (UnknownRecordType (PStr ''poll'')) skipped_xml)"
    by (simp add: skipped_xml_def eval_defs)
  have l: "source skipped_lines = Some [''Poll|x|y'']
      \<and> for_each line_body [''Poll|x|y''] skipped_lines
          = Ok (print (InvalidRecordFormat ''Poll|x|y'') skipped_lines)"
    by (simp add: skipped_lines_def eval_defs)
  note A = source_deleted_after_loop[where wj = "start_world None noon_2020"
      and wx = "start_world None noon_2020" and wl = "start_world None noon_2020"]
  note B = source_deleted_after_loop[where wj = skipped_json and v = "PList [?item]"
      and items = "[?item]" and ?wj1.0 = "print (UnknownRecordType (PStr ''poll'')) skipped_json"
      and wx = skipped_xml and rt = ?rt
      and ?wx1.0 = "print (UnknownRecordType (PStr ''poll'')) skipped_xml"
      and wl = skipped_lines and ls = "[''Poll|x|y'']"
      and ?wl1.0 = "print (InvalidRecordFormat ''Poll|x|y'') skipped_lines"]
  from A have a: "load_from_json (start_world None noon_2020)
          = Ok (print FileDoesNotExist (start_world None noon_2020))"
      "load_from_xml (start_world None noon_2020)
          = Ok (print FileDoesNotExist (start_world None noon_2020))"
      "process_file (start_world None noon_2020)
          = Ok (print FileDoesNotExist (start_world None noon_2020))"
    by (simp_all add: start_world_def)
  from B j x l a show ?thesis by blast
qed


subsection \<open>Malformed lines\<close>

text \<open>The branch that skips: it is reached by lines with at least two fields whose text
  field normalises.\<close>

lemma line_body_skip:
  assumes "split_on (CHR ''|'') (strip line) = p0 # p1 # ps"
    and "normalize_text (strip p1) = Inr (nt, n)"
    and "\<not> (strip p0 = ''News'' \<and> length ps = 1)"
    and "\<not> (strip p0 = ''PrivateAd'' \<and> length ps = 1)"
    and "\<not> (strip p0 = ''Event'' \<and> length ps = 2)"
  shows "line_body line w = Ok (print (InvalidRecordFormat line) w)"
  using assms by (auto simp: line_body_def)

lemma process_file_raise_source:
  assumes "process_file w = Raise e w'"
  shows "source w \<noteq> None \<and> source w' = source w"
proof -
  from assms obtain ls where ls: "source w = Some ls"
    by (cases "source w") (auto simp: process_file_def)
  with assms have "for_each line_body ls w = Raise e w'"
    by (auto simp: process_file_def split: result.splits)
  then have "source w' = source w"
    using for_each_source[of line_body ls w, OF source_line_body] by (simp add: world_of_def)
  with ls show ?thesis by simp
qed

text \<open>
  The first two parts of a line are read before the number of parts is looked at, so a
  line without a separator, a blank line included, is not skipped: it raises.
\<close>

lemma blank_line_raises: "line_body [] w = Raise IndexError w"
  by (simp add: line_body_def strip_def split_on_def)

lemma one_field_line_raises:
  "split_on (CHR ''|'') (strip line) = [p0] \<Longrightarrow> line_body line w = Raise IndexError w"
  by (simp add: line_body_def)

text \<open>
  C5. The claim: a line with the wrong number of fields is skipped with a message and the
  loop goes on with the next line. The code: in a file whose second line is \<^verbatim>\<open>News\<close>, a
  known tag with one field where three are due, reading the second field raises
  \<^verbatim>\<open>IndexError\<close> before the number of fields is looked at. The call raises it: no message
  is printed, the record of the first line is the only one written, the third line is never
  read, and the source file is not deleted.
\<close>

theorem one_field_line_aborts_batch:
  "raised (process_file one_field_lines) = Some IndexError
   \<and> map text_of (feed (world_of (process_file one_field_lines))) = [PStr ''Rain Rain.'']
   \<and> printed (world_of (process_file one_field_lines)) = []
   \<and> source (world_of (process_file one_field_lines)) = source one_field_lines
   \<and> source one_field_lines \<noteq> None"
  by (simp add: one_field_lines_def eval_defs)

subsection \<open>Empty texts\<close>



















end
